theory Spec2Isabelle
  imports Main "HOL-Library.Word"
begin

section \<open>The handle protocol of monowrapper.h\<close>

text \<open>
  \<^verbatim>\<open>ManagedHandle<T>\<close> (the observer) and \<^verbatim>\<open>ManagedBase<T>\<close> (the entity) point at
  each other with raw pointers: the handle holds \<^verbatim>\<open>T* m_object\<close>, the entity holds one
  \<^verbatim>\<open>ManagedHandle<T>* m_handle\<close>. Several claims depend on which object a pointer
  reaches and on whether that object is still alive, so both kinds of object live in an
  explicit store. A pointer is \<open>None\<close> for \<^verbatim>\<open>nullptr\<close> and \<open>Some a\<close> for the address
  \<open>a\<close>; an address with no entry in the store is storage whose object was never built or
  has been destroyed. Calling a member through a null pointer or through a pointer to
  such storage is undefined behaviour in C++; the model returns it as an error value.
\<close>

type_synonym addr = nat
type_synonym ptr = "addr option"

datatype error = NullDereference | DanglingPointer

text \<open>The data members of \<^verbatim>\<open>ManagedHandle<T>\<close>: \<^verbatim>\<open>T* m_object; bool m_valid;\<close>\<close>

record ManagedHandle =
  m_object :: ptr
  m_valid :: bool

text \<open>The data members of \<^verbatim>\<open>ManagedBase<T>\<close>: \<^verbatim>\<open>HandleT m_handle; bool m_valid;\<close>\<close>

record ManagedBase =
  m_handle :: ptr
  m_valid :: bool

record heap =
  handles :: "addr \<rightharpoonup> ManagedHandle"
  objects :: "addr \<rightharpoonup> ManagedBase"

text \<open>Sequencing of calls that may fail: the first error ends the computation.\<close>

definition and_then :: "error + 'a \<Rightarrow> ('a \<Rightarrow> error + 'b) \<Rightarrow> error + 'b" where
  "and_then r f = (case r of Inl e \<Rightarrow> Inl e | Inr x \<Rightarrow> f x)"

text \<open>Reaching the object behind a pointer.\<close>

definition deref_handle :: "ptr \<Rightarrow> heap \<Rightarrow> error + (addr \<times> ManagedHandle)" where
  "deref_handle p s =
     (case p of
        None \<Rightarrow> Inl NullDereference
      | Some a \<Rightarrow> (case handles s a of
                    None \<Rightarrow> Inl DanglingPointer
                  | Some H \<Rightarrow> Inr (a, H)))"

definition deref_base :: "ptr \<Rightarrow> heap \<Rightarrow> error + (addr \<times> ManagedBase)" where
  "deref_base p s =
     (case p of
        None \<Rightarrow> Inl NullDereference
      | Some a \<Rightarrow> (case objects s a of
                    None \<Rightarrow> Inl DanglingPointer
                  | Some B \<Rightarrow> Inr (a, B)))"

subsection \<open>ManagedHandle: Invalidate, Validate, Valid\<close>

text \<open>\<^verbatim>\<open>void Invalidate() { m_valid = false; }\<close>\<close>

definition Invalidate :: "ptr \<Rightarrow> heap \<Rightarrow> error + heap" where
  "Invalidate this s =
     and_then (deref_handle this s) (\<lambda>(a, H).
       Inr (s\<lparr>handles := (handles s)(a \<mapsto> H\<lparr>ManagedHandle.m_valid := False\<rparr>)\<rparr>))"

text \<open>\<^verbatim>\<open>void Validate() { m_valid = true; }\<close>\<close>

definition Validate :: "ptr \<Rightarrow> heap \<Rightarrow> error + heap" where
  "Validate this s =
     and_then (deref_handle this s) (\<lambda>(a, H).
       Inr (s\<lparr>handles := (handles s)(a \<mapsto> H\<lparr>ManagedHandle.m_valid := True\<rparr>)\<rparr>))"

text \<open>\<^verbatim>\<open>bool Valid() const { return m_valid; }\<close>\<close>

definition Valid :: "ptr \<Rightarrow> heap \<Rightarrow> error + bool" where
  "Valid this s = and_then (deref_handle this s) (\<lambda>(a, H). Inr (ManagedHandle.m_valid H))"

subsection \<open>ManagedBase: constructor, attach, detach, invalidate, validate\<close>

text \<open>\<^verbatim>\<open>ManagedBase() : m_handle(nullptr), m_valid(false) {}\<close>, building the entity in the
  storage at \<open>this\<close>.\<close>

definition ManagedBase_ctor :: "addr \<Rightarrow> heap \<Rightarrow> heap" where
  "ManagedBase_ctor this s =
     s\<lparr>objects := (objects s)(this \<mapsto> \<lparr>m_handle = None, m_valid = False\<rparr>)\<rparr>"

text \<open>
  \<^verbatim>\<open>
  void AttachHandle(HandleT handle) {
      handle->Validate();
      m_handle = handle;
      if (m_valid) m_handle->Validate();
      else         m_handle->Invalidate();
  }
  \<close>
\<close>

definition AttachHandle :: "ptr \<Rightarrow> ptr \<Rightarrow> heap \<Rightarrow> error + heap" where
  "AttachHandle this handle s =
     and_then (Validate handle s) (\<lambda>s1.
     and_then (deref_base this s1) (\<lambda>(a, B).
       let s2 = s1\<lparr>objects := (objects s1)(a \<mapsto> B\<lparr>m_handle := handle\<rparr>)\<rparr>
       in if ManagedBase.m_valid B then Validate handle s2 else Invalidate handle s2))"

text \<open>
  \<^verbatim>\<open>
  void DetachHandle(HandleT handle) {
      handle->Invalidate();
      m_handle = nullptr;
  }
  \<close>
\<close>

definition DetachHandle :: "ptr \<Rightarrow> ptr \<Rightarrow> heap \<Rightarrow> error + heap" where
  "DetachHandle this handle s =
     and_then (Invalidate handle s) (\<lambda>s1.
     and_then (deref_base this s1) (\<lambda>(a, B).
       Inr (s1\<lparr>objects := (objects s1)(a \<mapsto> B\<lparr>m_handle := None\<rparr>)\<rparr>)))"

text \<open>
  \<^verbatim>\<open>
  virtual void InvalidateHandle() {
      if (m_handle) m_handle->Invalidate();
      m_valid = false;
  }
  \<close>
\<close>

definition InvalidateHandle :: "ptr \<Rightarrow> heap \<Rightarrow> error + heap" where
  "InvalidateHandle this s =
     and_then (deref_base this s) (\<lambda>(a, B).
     and_then (if m_handle B \<noteq> None then Invalidate (m_handle B) s else Inr s) (\<lambda>s1.
       Inr (s1\<lparr>objects := (objects s1)(a \<mapsto> B\<lparr>ManagedBase.m_valid := False\<rparr>)\<rparr>)))"

text \<open>
  \<^verbatim>\<open>
  virtual void ValidateHandle() {
      if (m_handle) m_handle->Validate();
      m_valid = true;
  }
  \<close>
\<close>

definition ValidateHandle :: "ptr \<Rightarrow> heap \<Rightarrow> error + heap" where
  "ValidateHandle this s =
     and_then (deref_base this s) (\<lambda>(a, B).
     and_then (if m_handle B \<noteq> None then Validate (m_handle B) s else Inr s) (\<lambda>s1.
       Inr (s1\<lparr>objects := (objects s1)(a \<mapsto> B\<lparr>ManagedBase.m_valid := True\<rparr>)\<rparr>)))"

text \<open>
  \<^verbatim>\<open>ManagedBase\<close> declares no destructor, \<^verbatim>\<open>~ManagedAssembly() {}\<close> has an empty body and
  \<^verbatim>\<open>ManagedType\<close> declares none either: destroying such an entity runs no code of the
  protocol and ends the lifetime of the object at \<open>this\<close>.
\<close>

definition ManagedBase_dtor :: "ptr \<Rightarrow> heap \<Rightarrow> error + heap" where
  "ManagedBase_dtor this s =
     and_then (deref_base this s) (\<lambda>(a, B). Inr (s\<lparr>objects := (objects s)(a := None)\<rparr>))"

subsection \<open>ManagedHandle: constructor and destructor\<close>

text \<open>
  \<^verbatim>\<open>
  ManagedHandle(T* obj) : m_object(obj), m_valid(false) {
      m_object->AttachHandle(this);
  }
  \<close>
  The handle is built in the storage at \<open>this\<close>.
\<close>

definition ManagedHandle_ctor :: "addr \<Rightarrow> ptr \<Rightarrow> heap \<Rightarrow> error + heap" where
  "ManagedHandle_ctor this obj s =
     (let s0 = s\<lparr>handles := (handles s)(this \<mapsto> \<lparr>m_object = obj, m_valid = False\<rparr>)\<rparr>
      in AttachHandle obj (Some this) s0)"

text \<open>
  \<^verbatim>\<open>
  virtual ~ManagedHandle() {
      if (m_object && m_valid)
          m_object->DetachHandle(this);
  }
  \<close>
  After the body has run the lifetime of the handle at \<open>this\<close> is over.
\<close>

definition ManagedHandle_dtor :: "ptr \<Rightarrow> heap \<Rightarrow> error + heap" where
  "ManagedHandle_dtor this s =
     and_then (deref_handle this s) (\<lambda>(a, H).
     and_then (if m_object H \<noteq> None \<and> ManagedHandle.m_valid H
               then DetachHandle (m_object H) this s else Inr s) (\<lambda>s1.
       Inr (s1\<lparr>handles := (handles s1)(a := None)\<rparr>)))"

subsection \<open>Implicitly declared members and the remaining members of a handle\<close>

text \<open>
  \<^verbatim>\<open>ManagedHandle\<close> declares a destructor and no copy operation, so the compiler declares
  a public copy constructor and a public copy assignment operator for it (and no move
  operation: a move of a handle is a copy). Both copy the two data members and call
  nothing of the protocol: the entity is not told of the copy.
\<close>

definition ManagedHandle_copy_ctor :: "addr \<Rightarrow> ptr \<Rightarrow> heap \<Rightarrow> error + heap" where
  "ManagedHandle_copy_ctor this other s =
     and_then (deref_handle other s) (\<lambda>(b, H').
       Inr (s\<lparr>handles := (handles s)(this \<mapsto>
              \<lparr>m_object = m_object H', m_valid = ManagedHandle.m_valid H'\<rparr>)\<rparr>))"

definition ManagedHandle_copy_assign :: "ptr \<Rightarrow> ptr \<Rightarrow> heap \<Rightarrow> error + heap" where
  "ManagedHandle_copy_assign this other s =
     and_then (deref_handle this s) (\<lambda>(a, H).
     and_then (deref_handle other s) (\<lambda>(b, H').
       Inr (s\<lparr>handles := (handles s)(a \<mapsto>
              H\<lparr>m_object := m_object H', ManagedHandle.m_valid := ManagedHandle.m_valid H'\<rparr>)\<rparr>)))"

text \<open>
  \<^verbatim>\<open>T& operator*() { return *m_object; }\<close> and \<^verbatim>\<open>T& operator->() { return *m_object; }\<close>
  follow \<^verbatim>\<open>m_object\<close> and change nothing.
\<close>

definition ManagedHandle_deref :: "ptr \<Rightarrow> heap \<Rightarrow> error + heap" where
  "ManagedHandle_deref this s =
     and_then (deref_handle this s) (\<lambda>(a, H).
     and_then (deref_base (m_object H) s) (\<lambda>(b, B). Inr s))"

text \<open>
  \<^verbatim>\<open>ManagedBase\<close> declares no destructor and no copy or move operation, so the compiler
  declares public copy and move constructors and assignment operators for it; on a
  pointer and a \<^verbatim>\<open>bool\<close> a move is a copy. They copy \<^verbatim>\<open>m_handle\<close> and \<^verbatim>\<open>m_valid\<close> of
  the base subobject and call nothing.
\<close>

definition ManagedBase_copy_ctor :: "addr \<Rightarrow> ptr \<Rightarrow> heap \<Rightarrow> error + heap" where
  "ManagedBase_copy_ctor this other s =
     and_then (deref_base other s) (\<lambda>(b, B').
       Inr (s\<lparr>objects := (objects s)(this \<mapsto>
              \<lparr>m_handle = m_handle B', m_valid = ManagedBase.m_valid B'\<rparr>)\<rparr>))"

definition ManagedBase_copy_assign :: "ptr \<Rightarrow> ptr \<Rightarrow> heap \<Rightarrow> error + heap" where
  "ManagedBase_copy_assign this other s =
     and_then (deref_base this s) (\<lambda>(a, B).
     and_then (deref_base other s) (\<lambda>(b, B').
       Inr (s\<lparr>objects := (objects s)(a \<mapsto>
              B\<lparr>m_handle := m_handle B', ManagedBase.m_valid := ManagedBase.m_valid B'\<rparr>)\<rparr>)))"

subsection \<open>Reading the protected members of an entity\<close>

text \<open>\<^verbatim>\<open>ManagedBase\<close> has no accessor for \<^verbatim>\<open>m_valid\<close> and \<^verbatim>\<open>m_handle\<close>; the two
  functions below read the members directly, as a friend or a derived class does.\<close>

definition base_valid :: "ptr \<Rightarrow> heap \<Rightarrow> error + bool" where
  "base_valid this s = and_then (deref_base this s) (\<lambda>(a, B). Inr (ManagedBase.m_valid B))"

definition base_handle :: "ptr \<Rightarrow> heap \<Rightarrow> error + ptr" where
  "base_handle this s = and_then (deref_base this s) (\<lambda>(a, B). Inr (m_handle B))"

text \<open>A pointer that may be followed or tested: null, or the address of a live handle.\<close>

definition null_or_live :: "ptr \<Rightarrow> heap \<Rightarrow> bool" where
  "null_or_live p s = (case p of None \<Rightarrow> True | Some a \<Rightarrow> handles s a \<noteq> None)"

subsection \<open>Sequences of calls\<close>

text \<open>
  One constructor for every member function of \<^verbatim>\<open>ManagedHandle<T>\<close> and of
  \<^verbatim>\<open>ManagedBase<T>\<close> that can change the store or fail, declared in monowrapper.h or
  declared implicitly by the compiler, whoever may call it: the public members of a
  handle, the protected members of a handle and of an entity (open to the entity class
  \<^verbatim>\<open>T\<close> and to the two templates, which are friends), and the copy operations. The
  lists of calls are executed one after the other on the store; the library is
  single-threaded, so calls never interleave. Two things are outside: the overrides of
  \<^verbatim>\<open>InvalidateHandle\<close> in \<^verbatim>\<open>ManagedAssembly\<close>, \<^verbatim>\<open>ManagedClass\<close> and \<^verbatim>\<open>ManagedMethod\<close>,
  which monowrapper.h only declares, and code of a friend that writes the data members
  without calling a member function.
\<close>

datatype call =
    NewBase addr
  | CopyBase addr ptr
  | AssignBase ptr ptr
  | DeleteBase ptr
  | NewHandle addr ptr
  | CopyHandle addr ptr
  | AssignHandle ptr ptr
  | DeleteHandle ptr
  | Dereference ptr
  | CallValidate ptr
  | CallInvalidate ptr
  | Attach ptr ptr
  | Detach ptr ptr
  | InvalidateEntity ptr
  | ValidateEntity ptr

fun exec :: "call \<Rightarrow> heap \<Rightarrow> error + heap" where
  "exec (NewBase a) s = Inr (ManagedBase_ctor a s)"
| "exec (CopyBase a e) s = ManagedBase_copy_ctor a e s"
| "exec (AssignBase e e') s = ManagedBase_copy_assign e e' s"
| "exec (DeleteBase e) s = ManagedBase_dtor e s"
| "exec (NewHandle a e) s = ManagedHandle_ctor a e s"
| "exec (CopyHandle a h) s = ManagedHandle_copy_ctor a h s"
| "exec (AssignHandle h h') s = ManagedHandle_copy_assign h h' s"
| "exec (DeleteHandle h) s = ManagedHandle_dtor h s"
| "exec (Dereference h) s = ManagedHandle_deref h s"
| "exec (CallValidate h) s = Validate h s"
| "exec (CallInvalidate h) s = Invalidate h s"
| "exec (Attach e h) s = AttachHandle e h s"
| "exec (Detach e h) s = DetachHandle e h s"
| "exec (InvalidateEntity e) s = InvalidateHandle e s"
| "exec (ValidateEntity e) s = ValidateHandle e s"

fun run :: "call list \<Rightarrow> heap \<Rightarrow> error + heap" where
  "run [] s = Inr s"
| "run (c # cs) s = and_then (exec c s) (run cs)"

text \<open>
  The calls that set the flag of the handle at \<open>h\<close> to true when they are made in the
  store \<open>s\<close>: an attach of \<open>h\<close> (by its constructor or by \<^verbatim>\<open>AttachHandle\<close>) to an entity
  that is valid, \<^verbatim>\<open>ValidateHandle\<close> on an entity whose \<^verbatim>\<open>m_handle\<close> points at \<open>h\<close>, a
  copy onto \<open>h\<close> of a handle that reports valid, and \<^verbatim>\<open>Validate()\<close> on \<open>h\<close> itself.
\<close>

fun validates :: "addr \<Rightarrow> call \<Rightarrow> heap \<Rightarrow> bool" where
  "validates h (NewHandle a e) s = (a = h \<and> base_valid e s = Inr True)"
| "validates h (Attach e p) s = (p = Some h \<and> base_valid e s = Inr True)"
| "validates h (ValidateEntity e) s = (base_handle e s = Inr (Some h))"
| "validates h (CopyHandle a p) s = (a = h \<and> Valid p s = Inr True)"
| "validates h (AssignHandle p q) s = (p = Some h \<and> Valid q s = Inr True)"
| "validates h (CallValidate p) s = (p = Some h)"
| "validates h c s = False"

text \<open>
  The calls that set the flag of the handle at \<open>h\<close> to false when they are made in the
  store \<open>s\<close>: \<^verbatim>\<open>InvalidateHandle\<close> on an entity whose \<^verbatim>\<open>m_handle\<close> points at \<open>h\<close>,
  \<^verbatim>\<open>DetachHandle\<close> of \<open>h\<close>, an attach of \<open>h\<close> to an entity that is invalid, a copy onto
  \<open>h\<close> of a handle that reports invalid, and \<^verbatim>\<open>Invalidate()\<close> on \<open>h\<close> itself.
\<close>

fun invalidates :: "addr \<Rightarrow> call \<Rightarrow> heap \<Rightarrow> bool" where
  "invalidates h (InvalidateEntity e) s = (base_handle e s = Inr (Some h))"
| "invalidates h (Detach e p) s = (p = Some h)"
| "invalidates h (NewHandle a e) s = (a = h \<and> base_valid e s = Inr False)"
| "invalidates h (Attach e p) s = (p = Some h \<and> base_valid e s = Inr False)"
| "invalidates h (CopyHandle a p) s = (a = h \<and> Valid p s = Inr False)"
| "invalidates h (AssignHandle p q) s = (p = Some h \<and> Valid q s = Inr False)"
| "invalidates h (CallInvalidate p) s = (p = Some h)"
| "invalidates h c s = False"

text \<open>No call of the list is one that sets the flag of \<open>h\<close> to true in the store it is
  made in; the list is followed as far as it runs.\<close>

fun never_validated :: "addr \<Rightarrow> call list \<Rightarrow> heap \<Rightarrow> bool" where
  "never_validated h [] s = True"
| "never_validated h (c # cs) s =
     (\<not> validates h c s \<and>
      (case exec c s of Inl e \<Rightarrow> True | Inr s' \<Rightarrow> never_validated h cs s'))"

definition empty_heap :: heap where
  "empty_heap = \<lparr>handles = Map.empty, objects = Map.empty\<rparr>"

text \<open>A live, valid entity at address 0 with one handle at 10 built on it.\<close>

definition one_observer :: "call list" where
  "one_observer = [NewBase 0, ValidateEntity (Some 0), NewHandle 10 (Some 0)]"

text \<open>The same entity with a second handle at 11 built on it afterwards.\<close>

definition two_observers :: "call list" where
  "two_observers = one_observer @ [NewHandle 11 (Some 0)]"

text \<open>The store in which the handle at 10 is registered with the entity at 0, the entity's
  flag being \<open>ev\<close> and the handle's flag \<open>hv\<close>.\<close>

definition attached_state :: "bool \<Rightarrow> bool \<Rightarrow> heap" where
  "attached_state ev hv =
     \<lparr>handles = [10 \<mapsto> \<lparr>m_object = Some 0, m_valid = hv\<rparr>],
      objects = [0 \<mapsto> \<lparr>m_handle = Some 10, m_valid = ev\<rparr>]\<rparr>"

text \<open>The same two objects after the handle has been detached.\<close>

definition detached_state :: "bool \<Rightarrow> heap" where
  "detached_state ev =
     \<lparr>handles = [10 \<mapsto> \<lparr>m_object = Some 0, m_valid = False\<rparr>],
      objects = [0 \<mapsto> \<lparr>m_handle = None, m_valid = ev\<rparr>]\<rparr>"

section \<open>Managed objects\<close>

text \<open>
  \<^verbatim>\<open>enum class EManagedObjectHandleType { HANDLE = 0, HANDLE_PINNED = 1, WEAKREF = 2 };\<close>
  \<^verbatim>\<open>HANDLE\<close> is the movable kind, \<^verbatim>\<open>HANDLE_PINNED\<close> the pinned one, \<^verbatim>\<open>WEAKREF\<close> the weak one.
\<close>

datatype EManagedObjectHandleType = HANDLE | HANDLE_PINNED | WEAKREF

fun handle_type_value :: "EManagedObjectHandleType \<Rightarrow> int" where
  "handle_type_value HANDLE = 0"
| "handle_type_value HANDLE_PINNED = 1"
| "handle_type_value WEAKREF = 2"

text \<open>
  \<^verbatim>\<open>class ManagedObject : public ManagedBase<ManagedObject>\<close> with the data members
  \<^verbatim>\<open>MonoObject* m_obj; ManagedClass* m_class; uint32_t m_gcHandle = 0;\<close>
  \<^verbatim>\<open>EManagedObjectHandleType m_handleType = EManagedObjectHandleType::HANDLE_PINNED;\<close>
  (the accessor closure \<^verbatim>\<open>m_getObject\<close> is left out: no claim reads it).
\<close>

record ManagedObject = ManagedBase +
  m_obj :: ptr
  m_class :: ptr
  m_gcHandle :: "32 word"
  m_handleType :: EManagedObjectHandleType

text \<open>\<^verbatim>\<open>EManagedObjectHandleType GCHandleType() { return m_handleType; }\<close>\<close>

definition GCHandleType :: "ManagedObject \<Rightarrow> EManagedObjectHandleType" where
  "GCHandleType this = m_handleType this"

text \<open>\<^verbatim>\<open>ManagedObjectHandle GCHandle() { return m_gcHandle; }\<close>\<close>

definition GCHandle :: "ManagedObject \<Rightarrow> 32 word" where
  "GCHandle this = m_gcHandle this"

subsection \<open>Special member functions\<close>

text \<open>
  How a class declares a constructor: \<^verbatim>\<open>= delete\<close>, or a declaration that can be called.
  The declarations of \<^verbatim>\<open>ManagedObject\<close> are
  \<^verbatim>\<open>
  ManagedObject() = delete;
  ManagedObject(const ManagedObject& other) = delete;
  ManagedObject(ManagedObject&& other) = delete;
  \<close>
  under the class comment "Unlike the other classes here, the managed object can be
  copied around. It's just a wrapper around a MonoObject."
\<close>

datatype special_member = deleted | callable

record special_members =
  default_ctor :: special_member
  copy_ctor :: special_member
  move_ctor :: special_member

definition ManagedObject_members :: special_members where
  "ManagedObject_members = \<lparr>default_ctor = deleted, copy_ctor = deleted, move_ctor = deleted\<rparr>"

datatype ill_formed = UseOfDeletedFunction

text \<open>Copy construction \<^verbatim>\<open>ManagedObject(other)\<close>: overload resolution selects the copy
  constructor; a program that calls a deleted function is ill-formed, otherwise the copy
  holds the members of \<open>other\<close>.\<close>

definition ManagedObject_copy :: "ManagedObject \<Rightarrow> ill_formed + ManagedObject" where
  "ManagedObject_copy other =
     (case copy_ctor ManagedObject_members of
        deleted \<Rightarrow> Inl UseOfDeletedFunction
      | callable \<Rightarrow> Inr other)"

subsection \<open>Construction\<close>

text \<open>
  \<^verbatim>\<open>
  explicit ManagedObject(MonoObject* obj, class ManagedClass& cls,
      EManagedObjectHandleType type = EManagedObjectHandleType::HANDLE_PINNED);
  \<close>
  The argument \<open>type\<close> is \<open>None\<close> when the caller leaves it out, and the declaration's
  default applies. The runtime's allocation of GC handles is the parameter
  \<open>gchandle_new\<close>.

  Modelled from the spec: the body of \<^verbatim>\<open>ManagedObject::ManagedObject\<close>, which is only
  declared in monowrapper.h. By the spec a managed object "acquires a GC handle at
  construction" and "always carries a GC handle of one of three kinds", the kind being
  the one asked for; the members of \<^verbatim>\<open>ManagedBase\<close> are those its constructor sets.
\<close>

definition ManagedObject_ctor ::
  "(EManagedObjectHandleType \<Rightarrow> ptr \<Rightarrow> 32 word) \<Rightarrow> ptr \<Rightarrow> ptr
     \<Rightarrow> EManagedObjectHandleType option \<Rightarrow> ManagedObject" where
  "ManagedObject_ctor gchandle_new obj cls type =
     (let t = (case type of None \<Rightarrow> HANDLE_PINNED | Some k \<Rightarrow> k)
      in \<lparr>m_handle = None, m_valid = False,
          m_obj = obj, m_class = cls, m_gcHandle = gchandle_new t obj, m_handleType = t\<rparr>)"

text \<open>
  \<^verbatim>\<open>ManagedObject* CreateInstance(std::vector<MonoType*> signature, void** params);\<close>

  Modelled from the spec: the body of \<^verbatim>\<open>ManagedClass::CreateInstance\<close>, which is only
  declared in monowrapper.h: it "locates a constructor matching signatureTypes, invokes
  it, wraps the resulting runtime object in a ManagedObject with a pinned GC handle by
  default. Fails when no constructor matches." The declaration has no parameter for
  the handle kind, so the wrapping leaves that argument out. The runtime's lookup and
  invocation of constructors are parameters.
\<close>

record runtime =
  gchandle_new :: "EManagedObjectHandleType \<Rightarrow> ptr \<Rightarrow> 32 word"
  find_constructor :: "ptr \<Rightarrow> nat list \<Rightarrow> nat option"
  invoke_constructor :: "nat \<Rightarrow> nat list \<Rightarrow> ptr"

definition CreateInstance :: "runtime \<Rightarrow> ptr \<Rightarrow> nat list \<Rightarrow> nat list \<Rightarrow> ManagedObject option" where
  "CreateInstance rt this signature params =
     (case find_constructor rt this signature of
        None \<Rightarrow> None
      | Some ctor \<Rightarrow>
          Some (ManagedObject_ctor (gchandle_new rt) (invoke_constructor rt ctor params) this None))"

text \<open>A runtime with one constructor, of the empty signature, for every class.\<close>

definition sample_runtime :: runtime where
  "sample_runtime =
     \<lparr>gchandle_new = (\<lambda>t obj. 1),
      find_constructor = (\<lambda>cls sig. if sig = [] then Some 0 else None),
      invoke_constructor = (\<lambda>ctor params. Some 100)\<rparr>"

section \<open>The exception descriptor\<close>

text \<open>
  \<^verbatim>\<open>
  struct ManagedException_t {
      std::string message;
      std::string stackTrace;
      std::string source;
      std::string klass;
      std::string ns;
      std::string string_rep; // String representation of the exception (object.ToString)
  };
  \<close>
  It is the return type of \<^verbatim>\<open>ManagedScriptContext::GetExceptionDescriptor\<close> and the type
  of the last parameter of \<^verbatim>\<open>ExceptionCallbackT\<close>.
\<close>

record ManagedException_t =
  message :: string
  stackTrace :: string
  source :: string
  klass :: string
  ns :: string
  string_rep :: string

section \<open>The reflection cache of an assembly\<close>

text \<open>
  What the runtime enumerates for one row of an image's type table: namespace, name and
  the runtime handles of the methods, fields and properties of the type.
\<close>

record type_row =
  row_namespace :: string
  row_name :: string
  row_methods :: "nat list"
  row_fields :: "nat list"
  row_properties :: "nat list"

text \<open>
  \<^verbatim>\<open>class ManagedClass : public ManagedBase<ManagedClass>\<close>, with the members the claims
  read: \<^verbatim>\<open>m_methods\<close>, \<^verbatim>\<open>m_fields\<close>, \<^verbatim>\<open>m_properties\<close> (vectors of descriptors, here
  the runtime handle of each), \<^verbatim>\<open>m_namespaceName\<close> and \<^verbatim>\<open>m_className\<close>.
\<close>

record ManagedClass = ManagedBase +
  m_methods :: "nat list"
  m_fields :: "nat list"
  m_properties :: "nat list"
  m_namespaceName :: string
  m_className :: string

text \<open>
  \<^verbatim>\<open>class ManagedAssembly : public ManagedBase<ManagedAssembly>\<close>, with
  \<^verbatim>\<open>MonoImage* m_image\<close> (here the type rows of the image),
  \<^verbatim>\<open>std::unordered_multimap<std::string, ManagedClass*> m_classes\<close> (an association
  list, which keeps duplicates of a key) and \<^verbatim>\<open>bool m_populated\<close>.
\<close>

record ManagedAssembly = ManagedBase +
  m_image :: "type_row list"
  m_classes :: "(string \<times> ManagedClass) list"
  m_populated :: bool

text \<open>
  Modelled from the spec: the state in which \<^verbatim>\<open>ManagedAssembly\<close>'s constructor, only
  declared in monowrapper.h, leaves the cache: "unpopulated (empty collections,
  populated-flag false)"; the members of \<^verbatim>\<open>ManagedBase\<close> are those its constructor
  sets.
\<close>

definition ManagedAssembly_ctor :: "type_row list \<Rightarrow> ManagedAssembly" where
  "ManagedAssembly_ctor img =
     \<lparr>m_handle = None, m_valid = False, m_image = img, m_classes = [], m_populated = False\<rparr>"

text \<open>
  Modelled from the spec: the class node built for a type row. \<^verbatim>\<open>ManagedClass\<close>'s
  constructor and \<^verbatim>\<open>ManagedClass::PopulateReflectionInfo\<close> are only declared in
  monowrapper.h. By the spec a populated class has complete vectors of methods, fields
  and properties; the members of \<^verbatim>\<open>ManagedBase\<close> are those its constructor sets.
\<close>

definition class_of_row :: "type_row \<Rightarrow> ManagedClass" where
  "class_of_row r =
     \<lparr>m_handle = None, m_valid = False,
      m_methods = row_methods r, m_fields = row_fields r, m_properties = row_properties r,
      m_namespaceName = row_namespace r, m_className = row_name r\<rparr>"

text \<open>
  Modelled from the spec: \<^verbatim>\<open>ManagedAssembly::PopulateReflectionInfo\<close>, only declared in
  monowrapper.h. "Enumerates every type row in the image: for each, constructs a Class
  node, inserts it into a by-name multimap, triggers its population, and stores the node
  in the assembly's class table. Idempotent: second call is a no-op if already
  populated."
\<close>

definition PopulateReflectionInfo :: "ManagedAssembly \<Rightarrow> ManagedAssembly" where
  "PopulateReflectionInfo this =
     (if m_populated this then this
      else this\<lparr>m_classes := map (\<lambda>r. (row_name r, class_of_row r)) (m_image this),
                m_populated := True\<rparr>)"

text \<open>
  Modelled from the spec: \<^verbatim>\<open>ManagedAssembly::DisposeReflectionInfo\<close>, only declared in
  monowrapper.h. "Invalidates every class's handle, destroys its
  Method/Field/Property/Attribute children, then clears the class table, then sets
  populated-flag false." The class nodes are owned by the table, so nothing of them is
  left in the assembly once the table is cleared.
\<close>

definition DisposeReflectionInfo :: "ManagedAssembly \<Rightarrow> ManagedAssembly" where
  "DisposeReflectionInfo this = this\<lparr>m_classes := [], m_populated := False\<rparr>"

text \<open>
  The spec's invariant of the cache: "either unpopulated (empty collections,
  populated-flag false) or fully populated (every class in the image has a Class node;
  every class's Methods/Fields/Properties/Attributes vectors are complete)".
\<close>

definition cache_coherent :: "ManagedAssembly \<Rightarrow> bool" where
  "cache_coherent this =
     (if m_populated this
      then m_classes this = map (\<lambda>r. (row_name r, class_of_row r)) (m_image this)
      else m_classes this = [])"

text \<open>The class set of an assembly with the number of methods, fields and properties of
  each class.\<close>

definition class_counts :: "ManagedAssembly \<Rightarrow> (string \<times> string \<times> nat \<times> nat \<times> nat) set" where
  "class_counts this =
     set (map (\<lambda>(k, c). (m_namespaceName c, m_className c,
                          length (m_methods c), length (m_fields c), length (m_properties c)))
              (m_classes this))"

text \<open>An image with two types, and the assembly built on it.\<close>

definition sample_image :: "type_row list" where
  "sample_image =
     [\<lparr>row_namespace = ''Sample'', row_name = ''Greeter'',
       row_methods = [1, 2], row_fields = [3], row_properties = []\<rparr>,
      \<lparr>row_namespace = ''Sample'', row_name = ''Empty'',
       row_methods = [], row_fields = [], row_properties = []\<rparr>]"

definition sample_assembly :: ManagedAssembly where
  "sample_assembly = ManagedAssembly_ctor sample_image"

section \<open>Properties of the handle protocol\<close>

lemma and_then_Inr [simp]: "and_then (Inr x) f = f x"
  by (simp add: and_then_def)

lemma and_then_Inl [simp]: "and_then (Inl e) f = Inl e"
  by (simp add: and_then_def)

lemmas proto_defs = Invalidate_def Validate_def Valid_def AttachHandle_def DetachHandle_def
  InvalidateHandle_def ValidateHandle_def ManagedBase_dtor_def ManagedHandle_ctor_def
  ManagedHandle_dtor_def deref_handle_def deref_base_def base_valid_def base_handle_def
  ManagedBase_ctor_def ManagedHandle_copy_ctor_def ManagedHandle_copy_assign_def
  ManagedHandle_deref_def ManagedBase_copy_ctor_def ManagedBase_copy_assign_def

lemmas trace_defs = one_observer_def two_observers_def empty_heap_def

text \<open>The sample stores are what the calls of the protocol build.\<close>

lemma run_one_observer: "run one_observer empty_heap = Inr (attached_state True True)"
  by (simp add: trace_defs proto_defs attached_state_def)

lemma invalidate_attached_state:
  "InvalidateHandle (Some 0) (attached_state True True) = Inr (attached_state False False)"
  by (simp add: proto_defs attached_state_def)

lemma detach_attached_state:
  "DetachHandle (Some 0) (Some 10) (attached_state True True) = Inr (detached_state True)"
  by (simp add: proto_defs attached_state_def detached_state_def)

text \<open>A call that is not among the validating ones leaves a handle that does not
  report valid in that condition, and so does a list of such calls.\<close>

lemma exec_keeps_invalid:
  assumes "\<not> validates h c s" and "Valid (Some h) s \<noteq> Inr True" and "exec c s = Inr s'"
  shows "Valid (Some h) s' \<noteq> Inr True"
  using assms
  by (cases c)
    (auto simp add: proto_defs Let_def and_then_def split: option.splits if_splits sum.splits)

lemma run_keeps_invalid:
  "never_validated h cs s \<Longrightarrow> Valid (Some h) s \<noteq> Inr True
     \<Longrightarrow> and_then (run cs s) (Valid (Some h)) \<noteq> Inr True"
proof (induction cs arbitrary: s)
  case Nil
  then show ?case by simp
next
  case (Cons c cs)
  show ?case
  proof (cases "exec c s")
    case (Inl e)
    then show ?thesis by simp
  next
    case (Inr s1)
    from Cons.prems Inr have "Valid (Some h) s1 \<noteq> Inr True"
      using exec_keeps_invalid [of h c s s1] by simp
    moreover from Cons.prems(1) Inr have "never_validated h cs s1"
      by simp
    ultimately show ?thesis
      using Cons.IH [of s1] Inr by simp
  qed
qed

subsection \<open>Invalidation\<close>

text \<open>
  C1, as amended. \<^verbatim>\<open>InvalidateHandle\<close> on a live entity whose \<^verbatim>\<open>m_handle\<close> is null or
  points at a live handle succeeds, sets the entity's flag to false, keeps
  \<^verbatim>\<open>m_handle\<close>, and in the same call sets to false the flag of the one handle that
  \<^verbatim>\<open>m_handle\<close> points at, so that its \<^verbatim>\<open>Valid()\<close> returns false from then on. Every
  other handle of the store is left as it was: the entity has a single slot and knows
  only the handle attached last.
\<close>

theorem InvalidateHandle_marks_registered_observer:
  assumes "objects s e = Some B" and "null_or_live (m_handle B) s"
  shows "\<exists>s'. InvalidateHandle (Some e) s = Inr s'
           \<and> base_valid (Some e) s' = Inr False
           \<and> base_handle (Some e) s' = Inr (m_handle B)
           \<and> (m_handle B \<noteq> None \<longrightarrow> Valid (m_handle B) s' = Inr False)
           \<and> (\<forall>h. m_handle B \<noteq> Some h \<longrightarrow> handles s' h = handles s h)"
  using assms by (auto simp add: proto_defs null_or_live_def split: option.splits)

theorem InvalidateHandle_marks_registered_observer_witness:
  "objects (attached_state True True) 0 = Some \<lparr>m_handle = Some 10, m_valid = True\<rparr>
   \<and> null_or_live (Some 10) (attached_state True True)
   \<and> (\<exists>s'. InvalidateHandle (Some 0) (attached_state True True) = Inr s'
          \<and> base_valid (Some 0) s' = Inr False
          \<and> Valid (Some 10) s' = Inr False)"
  using InvalidateHandle_marks_registered_observer
    [of "attached_state True True" 0 "\<lparr>m_handle = Some 10, m_valid = True\<rparr>"]
  by (auto simp add: attached_state_def null_or_live_def)

text \<open>
  C1 as stated fails when two handles have been built on one entity: the second
  constructor overwrites \<^verbatim>\<open>m_handle\<close>, and \<^verbatim>\<open>InvalidateHandle\<close> reaches the second
  handle only. Both handles report valid before the call; after it the entity is
  invalid, the handle at 11 reports invalid and the handle at 10 still reports valid.
\<close>

theorem InvalidateHandle_misses_displaced_observer:
  "and_then (run two_observers empty_heap) (Valid (Some 10)) = Inr True
   \<and> and_then (run two_observers empty_heap) (Valid (Some 11)) = Inr True
   \<and> and_then (run (two_observers @ [InvalidateEntity (Some 0)]) empty_heap)
        (base_valid (Some 0)) = Inr False
   \<and> and_then (run (two_observers @ [InvalidateEntity (Some 0)]) empty_heap)
        (Valid (Some 11)) = Inr False
   \<and> and_then (run (two_observers @ [InvalidateEntity (Some 0)]) empty_heap)
        (Valid (Some 10)) = Inr True"
  by (simp add: trace_defs proto_defs)

subsection \<open>Attaching\<close>

text \<open>
  C2. Building a handle at \<open>h\<close> on a live entity \<open>e\<close> (the \<^verbatim>\<open>ManagedHandle\<close>
  constructor, which calls \<^verbatim>\<open>AttachHandle\<close>) succeeds and leaves the handle's
  \<^verbatim>\<open>Valid()\<close> equal to the entity's flag, which the call does not change; the entity's
  \<^verbatim>\<open>m_handle\<close> then points at \<open>h\<close>. The same holds for \<^verbatim>\<open>AttachHandle\<close> called with a
  live handle. In particular a handle attached to an invalid entity reports invalid.
\<close>

theorem attach_copies_entity_validity:
  assumes "objects s e = Some B"
  shows "(\<exists>s'. ManagedHandle_ctor h (Some e) s = Inr s'
           \<and> Valid (Some h) s' = Inr (ManagedBase.m_valid B)
           \<and> base_valid (Some e) s' = Inr (ManagedBase.m_valid B)
           \<and> base_handle (Some e) s' = Inr (Some h))
       \<and> (handles s h \<noteq> None \<longrightarrow>
           (\<exists>s'. AttachHandle (Some e) (Some h) s = Inr s'
             \<and> Valid (Some h) s' = Inr (ManagedBase.m_valid B)
             \<and> base_valid (Some e) s' = Inr (ManagedBase.m_valid B)
             \<and> base_handle (Some e) s' = Inr (Some h)))"
  using assms by (auto simp add: proto_defs Let_def)

theorem attach_copies_entity_validity_witness:
  "objects (detached_state False) 0 = Some \<lparr>m_handle = None, m_valid = False\<rparr>
   \<and> handles (detached_state False) 10 \<noteq> None
   \<and> (\<exists>s'. ManagedHandle_ctor 11 (Some 0) (detached_state False) = Inr s'
          \<and> Valid (Some 11) s' = Inr False \<and> base_valid (Some 0) s' = Inr False
          \<and> base_handle (Some 0) s' = Inr (Some 11))
   \<and> (\<exists>s'. AttachHandle (Some 0) (Some 10) (detached_state False) = Inr s'
          \<and> Valid (Some 10) s' = Inr False \<and> base_valid (Some 0) s' = Inr False
          \<and> base_handle (Some 0) s' = Inr (Some 10))
   \<and> objects (detached_state True) 0 = Some \<lparr>m_handle = None, m_valid = True\<rparr>
   \<and> handles (detached_state True) 10 \<noteq> None
   \<and> (\<exists>s'. ManagedHandle_ctor 11 (Some 0) (detached_state True) = Inr s'
          \<and> Valid (Some 11) s' = Inr True \<and> base_valid (Some 0) s' = Inr True
          \<and> base_handle (Some 0) s' = Inr (Some 11))
   \<and> (\<exists>s'. AttachHandle (Some 0) (Some 10) (detached_state True) = Inr s'
          \<and> Valid (Some 10) s' = Inr True \<and> base_valid (Some 0) s' = Inr True
          \<and> base_handle (Some 0) s' = Inr (Some 10))"
  using attach_copies_entity_validity
      [of "detached_state False" 0 "\<lparr>m_handle = None, m_valid = False\<rparr>" 11]
    attach_copies_entity_validity
      [of "detached_state False" 0 "\<lparr>m_handle = None, m_valid = False\<rparr>" 10]
    attach_copies_entity_validity
      [of "detached_state True" 0 "\<lparr>m_handle = None, m_valid = True\<rparr>" 11]
    attach_copies_entity_validity
      [of "detached_state True" 0 "\<lparr>m_handle = None, m_valid = True\<rparr>" 10]
  by (simp add: detached_state_def)

subsection \<open>Detaching\<close>

text \<open>
  C3, as amended. \<^verbatim>\<open>DetachHandle\<close> on a live entity and a live handle succeeds, sets
  the entity's \<^verbatim>\<open>m_handle\<close> to null whatever it pointed at, keeps the entity's flag, sets
  the handle's flag to false and touches no other handle. Repeating the call on the
  store it returns changes nothing. On a pair that is already detached, the handle
  invalid and the entity's \<^verbatim>\<open>m_handle\<close> null, the call changes nothing at all.
\<close>

theorem DetachHandle_unlinks_and_repeats:
  assumes "objects s e = Some B" and "handles s h = Some H"
  shows "\<exists>s'. DetachHandle (Some e) (Some h) s = Inr s'
           \<and> base_handle (Some e) s' = Inr None
           \<and> base_valid (Some e) s' = Inr (ManagedBase.m_valid B)
           \<and> Valid (Some h) s' = Inr False
           \<and> (\<forall>h'. h' \<noteq> h \<longrightarrow> handles s' h' = handles s h')
           \<and> DetachHandle (Some e) (Some h) s' = Inr s'
           \<and> (m_handle B = None \<and> \<not> ManagedHandle.m_valid H \<longrightarrow> s' = s)"
  using assms by (auto simp add: proto_defs map_upd_triv fun_upd_idem)

theorem DetachHandle_unlinks_and_repeats_witness:
  "objects (attached_state True True) 0 = Some \<lparr>m_handle = Some 10, m_valid = True\<rparr>
   \<and> handles (attached_state True True) 10 = Some \<lparr>m_object = Some 0, m_valid = True\<rparr>
   \<and> (\<exists>s'. DetachHandle (Some 0) (Some 10) (attached_state True True) = Inr s'
          \<and> base_handle (Some 0) s' = Inr None \<and> Valid (Some 10) s' = Inr False)
   \<and> objects (detached_state True) 0 = Some \<lparr>m_handle = None, m_valid = True\<rparr>
   \<and> handles (detached_state True) 10 = Some \<lparr>m_object = Some 0, m_valid = False\<rparr>
   \<and> DetachHandle (Some 0) (Some 10) (detached_state True) = Inr (detached_state True)"
  using DetachHandle_unlinks_and_repeats
      [of "attached_state True True" 0 "\<lparr>m_handle = Some 10, m_valid = True\<rparr>" 10
          "\<lparr>m_object = Some 0, m_valid = True\<rparr>"]
    DetachHandle_unlinks_and_repeats
      [of "detached_state True" 0 "\<lparr>m_handle = None, m_valid = True\<rparr>" 10
          "\<lparr>m_object = Some 0, m_valid = False\<rparr>"]
  by (auto simp add: attached_state_def detached_state_def)

text \<open>
  C3 as stated fails when another handle has been attached since: the handle at 10 is
  detached, the handle at 11 is built on the entity, and a second detach of the pair
  (entity, 10) resets the entity's \<^verbatim>\<open>m_handle\<close> from 11 to null, so that the handle at
  11 stays valid with no entity pointing at it.
\<close>

theorem DetachHandle_again_unlinks_other_observer:
  "and_then (run (one_observer @ [Detach (Some 0) (Some 10), NewHandle 11 (Some 0)])
       empty_heap) (base_handle (Some 0)) = Inr (Some 11)
   \<and> and_then (run (one_observer @ [Detach (Some 0) (Some 10), NewHandle 11 (Some 0)])
       empty_heap) (Valid (Some 10)) = Inr False
   \<and> and_then (run (one_observer @ [Detach (Some 0) (Some 10), NewHandle 11 (Some 0),
       Detach (Some 0) (Some 10)]) empty_heap) (base_handle (Some 0)) = Inr None
   \<and> and_then (run (one_observer @ [Detach (Some 0) (Some 10), NewHandle 11 (Some 0),
       Detach (Some 0) (Some 10)]) empty_heap) (Valid (Some 11)) = Inr True"
  by (simp add: trace_defs proto_defs)

subsection \<open>Transitions of a handle's flag\<close>

text \<open>
  C4, as amended. Among the member functions of \<^verbatim>\<open>ManagedHandle\<close> and \<^verbatim>\<open>ManagedBase\<close>,
  declared or implicit, a handle's \<^verbatim>\<open>Valid()\<close> goes from not true to true in one call
  only by a validating call: an attach of the handle (constructor or \<^verbatim>\<open>AttachHandle\<close>)
  to a valid entity, \<^verbatim>\<open>ValidateHandle\<close> on an entity whose \<^verbatim>\<open>m_handle\<close> points at it,
  a copy onto it of a handle that reports valid, or \<^verbatim>\<open>Validate()\<close> on it; and every
  such call that succeeds leaves it valid. It goes from true to false only by an
  invalidating call: \<^verbatim>\<open>InvalidateHandle\<close> on an entity whose \<^verbatim>\<open>m_handle\<close> points at
  it, \<^verbatim>\<open>DetachHandle\<close> of it, an attach of it to an invalid entity, a copy onto it of a
  handle that reports invalid, or \<^verbatim>\<open>Invalidate()\<close> on it; and every such call that
  succeeds on a valid handle leaves it invalid. Along any sequence of calls none of
  which is validating for the handle, a handle that does not report valid never reports
  valid.
\<close>

theorem handle_validity_transitions:
  "(Valid (Some h) s \<noteq> Inr True \<and> and_then (exec c s) (Valid (Some h)) = Inr True \<longrightarrow>
      validates h c s)
   \<and> (validates h c s \<and> exec c s = Inr s' \<longrightarrow> Valid (Some h) s' = Inr True)
   \<and> (Valid (Some h) s = Inr True \<and> and_then (exec c s) (Valid (Some h)) = Inr False \<longrightarrow>
      invalidates h c s)
   \<and> (invalidates h c s \<and> Valid (Some h) s = Inr True \<and> exec c s = Inr s' \<longrightarrow>
      Valid (Some h) s' = Inr False)
   \<and> (Valid (Some h) s \<noteq> Inr True \<and> never_validated h cs s \<longrightarrow>
      and_then (run cs s) (Valid (Some h)) \<noteq> Inr True)"
proof (intro conjI impI)
  assume "Valid (Some h) s \<noteq> Inr True \<and> and_then (exec c s) (Valid (Some h)) = Inr True"
  then show "validates h c s"
    by (cases c)
      (auto simp add: proto_defs Let_def and_then_def split: option.splits if_splits sum.splits)
next
  assume "validates h c s \<and> exec c s = Inr s'"
  then show "Valid (Some h) s' = Inr True"
    by (cases c)
      (auto simp add: proto_defs Let_def and_then_def split: option.splits if_splits sum.splits)
next
  assume "Valid (Some h) s = Inr True \<and> and_then (exec c s) (Valid (Some h)) = Inr False"
  then show "invalidates h c s"
    by (cases c)
      (auto simp add: proto_defs Let_def and_then_def split: option.splits if_splits sum.splits)
next
  assume "invalidates h c s \<and> Valid (Some h) s = Inr True \<and> exec c s = Inr s'"
  then show "Valid (Some h) s' = Inr False"
    by (cases c)
      (auto simp add: proto_defs Let_def and_then_def split: option.splits if_splits sum.splits)
next
  assume "Valid (Some h) s \<noteq> Inr True \<and> never_validated h cs s"
  then show "and_then (run cs s) (Valid (Some h)) \<noteq> Inr True"
    using run_keeps_invalid [of h cs s] by simp
qed

theorem handle_validity_transitions_witness:
  "Valid (Some 10) (attached_state False False) \<noteq> Inr True
   \<and> validates 10 (ValidateEntity (Some 0)) (attached_state False False)
   \<and> exec (ValidateEntity (Some 0)) (attached_state False False)
       = Inr (attached_state True True)
   \<and> Valid (Some 10) (attached_state True True) = Inr True
   \<and> invalidates 10 (InvalidateEntity (Some 0)) (attached_state True True)
   \<and> exec (InvalidateEntity (Some 0)) (attached_state True True)
       = Inr (attached_state False False)
   \<and> Valid (Some 10) (attached_state False False) = Inr False
   \<and> never_validated 10 [InvalidateEntity (Some 0), NewHandle 11 (Some 0),
        Detach (Some 0) (Some 10)] (attached_state False False)
   \<and> and_then (run [InvalidateEntity (Some 0), NewHandle 11 (Some 0),
        Detach (Some 0) (Some 10)] (attached_state False False)) (Valid (Some 10))
       \<noteq> Inr True
   \<and> Valid (Some 11) (attached_state True True) \<noteq> Inr True
   \<and> validates 11 (CopyHandle 11 (Some 10)) (attached_state True True)
   \<and> and_then (exec (CopyHandle 11 (Some 10)) (attached_state True True)) (Valid (Some 11))
       = Inr True"
  using handle_validity_transitions
      [where h = 10 and s = "attached_state False False" and c = "ValidateEntity (Some 0)"
         and s' = "attached_state True True"
         and cs = "[InvalidateEntity (Some 0), NewHandle 11 (Some 0),
                    Detach (Some 0) (Some 10)]"]
    handle_validity_transitions
      [where h = 10 and s = "attached_state True True" and c = "InvalidateEntity (Some 0)"
         and s' = "attached_state False False" and cs = "[]"]
    handle_validity_transitions
      [where h = 11 and s = "attached_state True True" and c = "CopyHandle 11 (Some 10)"
         and cs = "[]"]
  by (simp add: proto_defs attached_state_def)

text \<open>
  C4 as stated fails: \<^verbatim>\<open>ValidateHandle\<close> after \<^verbatim>\<open>InvalidateHandle\<close> on the same entity
  sets the flag of the registered handle back to true, with no new attach.
\<close>

theorem ValidateHandle_revives_observer:
  "and_then (run one_observer empty_heap) (Valid (Some 10)) = Inr True
   \<and> and_then (run (one_observer @ [InvalidateEntity (Some 0)]) empty_heap)
        (Valid (Some 10)) = Inr False
   \<and> and_then (run (one_observer @ [InvalidateEntity (Some 0), ValidateEntity (Some 0)])
        empty_heap) (Valid (Some 10)) = Inr True"
  by (simp add: trace_defs proto_defs)

subsection \<open>Destruction\<close>

text \<open>
  C5, as amended. When a live entity whose \<^verbatim>\<open>m_handle\<close> points at a live handle is
  invalidated (\<^verbatim>\<open>InvalidateHandle\<close>) before it is destroyed, both calls succeed, the
  handle reports invalid afterwards, and the handle's destructor then succeeds without
  following \<^verbatim>\<open>m_object\<close>: it only ends the handle's lifetime.
\<close>

theorem invalidate_before_destroy_is_safe:
  assumes "objects s e = Some B" and "m_handle B = Some h" and "handles s h = Some H"
  shows "\<exists>s'. run [InvalidateEntity (Some e), DeleteBase (Some e)] s = Inr s'
           \<and> objects s' e = None
           \<and> Valid (Some h) s' = Inr False
           \<and> ManagedHandle_dtor (Some h) s' = Inr (s'\<lparr>handles := (handles s')(h := None)\<rparr>)"
  using assms by (auto simp add: proto_defs)

theorem invalidate_before_destroy_is_safe_witness:
  "objects (attached_state True True) 0 = Some \<lparr>m_handle = Some 10, m_valid = True\<rparr>
   \<and> handles (attached_state True True) 10 = Some \<lparr>m_object = Some 0, m_valid = True\<rparr>
   \<and> (\<exists>s'. run [InvalidateEntity (Some 0), DeleteBase (Some 0)] (attached_state True True)
            = Inr s'
          \<and> objects s' 0 = None
          \<and> Valid (Some 10) s' = Inr False
          \<and> ManagedHandle_dtor (Some 10) s' = Inr (s'\<lparr>handles := (handles s')(10 := None)\<rparr>))"
  using invalidate_before_destroy_is_safe
      [of "attached_state True True" 0 "\<lparr>m_handle = Some 10, m_valid = True\<rparr>" 10
          "\<lparr>m_object = Some 0, m_valid = True\<rparr>"]
  by (simp add: attached_state_def)

text \<open>
  C5 as stated fails: destroying a valid entity runs no code of the protocol, so the
  handle built on it still reports valid afterwards, and the handle's destructor then
  calls \<^verbatim>\<open>DetachHandle\<close> through \<^verbatim>\<open>m_object\<close>, which points at the destroyed entity.
\<close>

theorem destroy_without_invalidate_dangles:
  "and_then (run (one_observer @ [DeleteBase (Some 0)]) empty_heap) (Valid (Some 10))
     = Inr True
   \<and> run (one_observer @ [DeleteBase (Some 0), DeleteHandle (Some 10)]) empty_heap
     = Inl DanglingPointer"
  by (simp add: trace_defs proto_defs)

text \<open>
  C10. When the entity's \<^verbatim>\<open>m_handle\<close> points at a live handle whose flag is false,
  destroying the handle succeeds and changes nothing but the handle's own lifetime:
  the entity's \<^verbatim>\<open>m_handle\<close> still holds the handle's address, the handle is gone, and
  \<^verbatim>\<open>ValidateHandle\<close> and \<^verbatim>\<open>InvalidateHandle\<close> on the entity then go through the stale
  pointer.
\<close>

theorem invalid_handle_dtor_leaves_stale_pointer:
  assumes "objects s e = Some B" and "m_handle B = Some h" and "handles s h = Some H"
    and "\<not> ManagedHandle.m_valid H"
  shows "ManagedHandle_dtor (Some h) s = Inr (s\<lparr>handles := (handles s)(h := None)\<rparr>)
       \<and> base_handle (Some e) (s\<lparr>handles := (handles s)(h := None)\<rparr>) = Inr (Some h)
       \<and> Valid (Some h) (s\<lparr>handles := (handles s)(h := None)\<rparr>) = Inl DanglingPointer
       \<and> ValidateHandle (Some e) (s\<lparr>handles := (handles s)(h := None)\<rparr>) = Inl DanglingPointer
       \<and> InvalidateHandle (Some e) (s\<lparr>handles := (handles s)(h := None)\<rparr>) = Inl DanglingPointer"
  using assms by (auto simp add: proto_defs)

theorem invalid_handle_dtor_leaves_stale_pointer_witness:
  "objects (attached_state False False) 0 = Some \<lparr>m_handle = Some 10, m_valid = False\<rparr>
   \<and> handles (attached_state False False) 10 = Some \<lparr>m_object = Some 0, m_valid = False\<rparr>
   \<and> and_then (ManagedHandle_dtor (Some 10) (attached_state False False))
        (base_handle (Some 0)) = Inr (Some 10)
   \<and> and_then (ManagedHandle_dtor (Some 10) (attached_state False False))
        (ValidateHandle (Some 0)) = Inl DanglingPointer
   \<and> and_then (ManagedHandle_dtor (Some 10) (attached_state False False))
        (InvalidateHandle (Some 0)) = Inl DanglingPointer"
  using invalid_handle_dtor_leaves_stale_pointer
      [of "attached_state False False" 0 "\<lparr>m_handle = Some 10, m_valid = False\<rparr>" 10
          "\<lparr>m_object = Some 0, m_valid = False\<rparr>"]
  by (simp add: attached_state_def)

section \<open>Properties of managed objects\<close>

text \<open>
  C6. The claim asks for a copy of any \<^verbatim>\<open>ManagedObject\<close>, as the class comment does;
  the class deletes its copy constructor, so copy construction of any object is
  rejected.
\<close>

theorem ManagedObject_copy_is_deleted:
  "ManagedObject_copy other = Inl UseOfDeletedFunction"
  by (simp add: ManagedObject_copy_def ManagedObject_members_def)

text \<open>
  C7. A \<^verbatim>\<open>ManagedObject\<close> built without a handle-kind argument, directly or by
  \<^verbatim>\<open>CreateInstance\<close>, has the handle kind \<^verbatim>\<open>HANDLE_PINNED\<close>, one of the three kinds
  \<^verbatim>\<open>HANDLE\<close> (movable), \<^verbatim>\<open>HANDLE_PINNED\<close> and \<^verbatim>\<open>WEAKREF\<close>.
\<close>

theorem default_handle_kind_is_pinned:
  "GCHandleType (ManagedObject_ctor g obj cls None) = HANDLE_PINNED
   \<and> (CreateInstance rt this sig ps = Some m \<longrightarrow> GCHandleType m = HANDLE_PINNED)
   \<and> (UNIV :: EManagedObjectHandleType set) = {HANDLE, HANDLE_PINNED, WEAKREF}"
proof -
  have "k \<in> {HANDLE, HANDLE_PINNED, WEAKREF}" for k
    by (cases k) simp_all
  then have "(UNIV :: EManagedObjectHandleType set) = {HANDLE, HANDLE_PINNED, WEAKREF}"
    by blast
  then show ?thesis
    by (auto simp add: GCHandleType_def ManagedObject_ctor_def CreateInstance_def
        split: option.splits)
qed

theorem default_handle_kind_is_pinned_witness:
  "CreateInstance sample_runtime (Some 5) [] [] =
     Some \<lparr>m_handle = None, m_valid = False, m_obj = Some 100, m_class = Some 5,
           m_gcHandle = 1, m_handleType = HANDLE_PINNED\<rparr>
   \<and> GCHandleType \<lparr>m_handle = None, m_valid = False, m_obj = Some 100, m_class = Some 5,
           m_gcHandle = 1, m_handleType = HANDLE_PINNED\<rparr> = HANDLE_PINNED"
  using default_handle_kind_is_pinned
      [of "gchandle_new sample_runtime" "Some 100" "Some 5" sample_runtime "Some 5" "[]" "[]"
          "\<lparr>m_handle = None, m_valid = False, m_obj = Some 100, m_class = Some 5,
            m_gcHandle = 1, m_handleType = HANDLE_PINNED\<rparr>"]
  by (simp add: CreateInstance_def sample_runtime_def ManagedObject_ctor_def)

section \<open>Properties of the exception descriptor\<close>

text \<open>
  C8. An exception descriptor is the record of its six fields \<^verbatim>\<open>message\<close>,
  \<^verbatim>\<open>stackTrace\<close>, \<^verbatim>\<open>source\<close>, \<^verbatim>\<open>klass\<close>, \<^verbatim>\<open>ns\<close> and \<^verbatim>\<open>string_rep\<close>, each a
  string: it holds nothing else.
\<close>

theorem ManagedException_t_six_fields:
  "(r :: ManagedException_t) =
     \<lparr>message = message r, stackTrace = stackTrace r, source = source r,
      klass = klass r, ns = ns r, string_rep = string_rep r\<rparr>"
  by simp

section \<open>Properties of the reflection cache\<close>

text \<open>The constructor and both operations keep the invariant of the cache.\<close>

lemma cache_coherent_ctor: "cache_coherent (ManagedAssembly_ctor img)"
  by (simp add: cache_coherent_def ManagedAssembly_ctor_def)

lemma cache_coherent_Populate: "cache_coherent A \<Longrightarrow> cache_coherent (PopulateReflectionInfo A)"
  by (simp add: cache_coherent_def PopulateReflectionInfo_def)

lemma cache_coherent_Dispose: "cache_coherent (DisposeReflectionInfo A)"
  by (simp add: cache_coherent_def DisposeReflectionInfo_def)

text \<open>
  C9. Populating twice is populating once: the second call returns the populated
  assembly as it is. On an assembly whose cache satisfies the invariant,
  populate, dispose, populate gives the assembly that one populate gives, hence the same
  class set with the same numbers of methods, fields and properties.
\<close>

theorem populate_idempotent_and_round_trip:
  assumes "cache_coherent A"
  shows "PopulateReflectionInfo (PopulateReflectionInfo A) = PopulateReflectionInfo A
       \<and> PopulateReflectionInfo (DisposeReflectionInfo (PopulateReflectionInfo A))
           = PopulateReflectionInfo A
       \<and> class_counts (PopulateReflectionInfo (DisposeReflectionInfo (PopulateReflectionInfo A)))
           = class_counts (PopulateReflectionInfo A)"
proof -
  have idem: "PopulateReflectionInfo (PopulateReflectionInfo A) = PopulateReflectionInfo A"
    by (simp add: PopulateReflectionInfo_def)
  have trip: "PopulateReflectionInfo (DisposeReflectionInfo (PopulateReflectionInfo A))
           = PopulateReflectionInfo A"
    using assms
    by (cases "m_populated A")
      (simp_all add: PopulateReflectionInfo_def DisposeReflectionInfo_def cache_coherent_def)
  from idem trip show ?thesis by simp
qed

theorem populate_idempotent_and_round_trip_witness:
  "cache_coherent sample_assembly
   \<and> PopulateReflectionInfo (PopulateReflectionInfo sample_assembly)
       = PopulateReflectionInfo sample_assembly
   \<and> PopulateReflectionInfo (DisposeReflectionInfo (PopulateReflectionInfo sample_assembly))
       = PopulateReflectionInfo sample_assembly
   \<and> class_counts (PopulateReflectionInfo (DisposeReflectionInfo
        (PopulateReflectionInfo sample_assembly)))
       = {(''Sample'', ''Greeter'', 2, 1, 0), (''Sample'', ''Empty'', 0, 0, 0)}"
  using populate_idempotent_and_round_trip [of sample_assembly]
  by (simp add: cache_coherent_def sample_assembly_def ManagedAssembly_ctor_def
      PopulateReflectionInfo_def DisposeReflectionInfo_def class_counts_def sample_image_def
      class_of_row_def numeral_2_eq_2)

end
